theory Spec2Isabelle
  imports Main
begin

section \<open>Python values shared by the modules\<close>

text \<open>
  A Python \<open>str\<close> is modelled as a \<open>string\<close> in which every \<open>char\<close> stands for one code
  point in the range 0..255; code points beyond that range are outside the model.
  An exception instance is its class name together with \<open>str(e)\<close>. Only instances of
  \<open>Exception\<close> are modelled; that is the class every handler of the program catches.
\<close>

datatype exn = Exn (exn_class: string) (exn_str: string)

text \<open>\<open>str.isspace\<close> on one character, for the code points of the model.\<close>

definition py_isspace :: "char \<Rightarrow> bool" where
  "py_isspace c = (c \<in> set [CHR 0x09, CHR 0x0A, CHR 0x0B, CHR 0x0C, CHR 0x0D,
                              CHR 0x1C, CHR 0x1D, CHR 0x1E, CHR 0x1F, CHR 0x20,
                              CHR 0x85, CHR 0xA0])"

text \<open>\<open>s.strip()\<close>: leading and trailing whitespace removed.\<close>

definition strip :: "string \<Rightarrow> string" where
  "strip s = rev (dropWhile py_isspace (rev (dropWhile py_isspace s)))"

text \<open>\<open>s.split(sep)\<close> for a separator of one character: always at least one piece.\<close>

fun split_on :: "char \<Rightarrow> string \<Rightarrow> string list" where
  "split_on sep [] = [] # []"
| "split_on sep (c # cs) =
     (if c = sep then [] # split_on sep cs
      else (case split_on sep cs of [] \<Rightarrow> [c] # [] | p # ps \<Rightarrow> (c # p) # ps))"

definition ascii_digit :: "char \<Rightarrow> bool" where
  "ascii_digit c = (c \<in> set ''0123456789'')"

text \<open>
  A character with Unicode property Numeric_Type=Digit or Decimal. Below code point 256
  these are the ASCII digits and the superscripts two, three and one (B2, B3, B9).
\<close>

definition unicode_digit :: "char \<Rightarrow> bool" where
  "unicode_digit c = (ascii_digit c \<or> c \<in> set [CHR 0xB2, CHR 0xB3, CHR 0xB9])"

text \<open>\<open>s.isdigit()\<close>: at least one character, and all of them digits.\<close>

definition isdigit :: "string \<Rightarrow> bool" where
  "isdigit s = (s \<noteq> [] \<and> list_all unicode_digit s)"

definition digit_val :: "char \<Rightarrow> int" where
  "digit_val c = int (of_char c) - 48"

text \<open>\<open>str(n)\<close> for an integer.\<close>

fun str_nat :: "nat \<Rightarrow> string" where
  "str_nat n =
     (if n < 10 then [''0123456789'' ! n]
      else str_nat (n div 10) @ [''0123456789'' ! (n mod 10)])"

declare str_nat.simps [simp del]

definition str_int :: "int \<Rightarrow> string" where
  "str_int i = (if i < 0 then ''-'' @ str_nat (nat (- i)) else str_nat (nat i))"

text \<open>
  The longest run of decimal digits \<open>int\<close> converts: the default of
  \<open>sys.get_int_max_str_digits()\<close> on the interpreters the project supports.
\<close>

definition int_max_str_digits :: nat where
  "int_max_str_digits = 4300"

text \<open>
  \<open>int(s)\<close> for a string \<open>s\<close> that passed \<open>isdigit\<close>, its only call site: such a string has
  no sign, underscore or blank. The conversion counts the decimal digits at the start of
  \<open>s\<close>, leading zeros included, and raises ValueError when there are more than
  \<open>int_max_str_digits\<close>; otherwise it gives the decimal value when every character is a
  decimal digit and raises ValueError when one is not. The messages are those of
  CPython 3.11; the program never reads them.
\<close>

definition py_int :: "string \<Rightarrow> exn + int" where
  "py_int s =
     (let digits = length (takeWhile ascii_digit s) in
      if digits > int_max_str_digits
      then Inl (Exn ''ValueError''
                 (''Exceeds the limit ('' @ str_nat int_max_str_digits
                  @ '' digits) for integer string conversion: value has '' @ str_nat digits
                  @ '' digits; use sys.set_int_max_str_digits() to increase the limit''))
      else if s \<noteq> [] \<and> list_all ascii_digit s
      then Inr (foldl (\<lambda>acc c. 10 * acc + digit_val c) 0 s)
      else Inl (Exn ''ValueError''
                 (''invalid literal for int() with base 10: '' @ [CHR 0x27] @ s @ [CHR 0x27])))"

section \<open>main.py: selection parsing\<close>

text \<open>
  The loop of \<open>parse_selection\<close> over the pieces of the selection, with the list
  \<open>selected\<close> it appends to. \<open>int(item)\<close> may raise; nothing in the function catches it.
\<close>

fun parse_items :: "string list \<Rightarrow> string list \<Rightarrow> string list \<Rightarrow> exn + string list" where
  "parse_items [] available_list selected = Inr selected"
| "parse_items (raw # items) available_list selected =
     (let item = strip raw in
      if isdigit item then
        (case py_int item of
           Inl e \<Rightarrow> Inl e
         | Inr n \<Rightarrow>
             (let idx = n - 1 in
              if 0 \<le> idx \<and> idx < int (length available_list)
              then parse_items items available_list (selected @ [available_list ! nat idx])
              else parse_items items available_list selected))
      else if item \<in> set available_list
      then parse_items items available_list (selected @ [item])
      else parse_items items available_list selected)"

definition parse_selection :: "string \<Rightarrow> string list \<Rightarrow> exn + string list" where
  "parse_selection selection available_list =
     parse_items (split_on CHR '','' selection) available_list []"

definition available_agents :: "string list" where
  "available_agents =
     [''senior_developer'', ''frontend_developer'', ''backend_developer'',
      ''devops_engineer'', ''qa_engineer'', ''tech_lead'', ''business_analyst'',
      ''security_specialist'', ''database_admin'', ''ui_ux_designer'']"

definition available_tasks :: "string list" where
  "available_tasks =
     [''analyze_project'', ''design_architecture'', ''develop_backend'',
      ''develop_frontend'', ''design_database'', ''assess_security'',
      ''create_testing_strategy'', ''setup_devops'', ''design_user_experience'',
      ''review_code'']"

section \<open>crew.py: assembling a custom crew\<close>

text \<open>
  An agent is identified by the key of its configuration entry and the language-model
  client it is bound to; a task by its configuration key, its agent and its output file.
  The orchestration framework that later runs the crew is external: with
  \<open>Process.sequential\<close> it runs \<open>crew_tasks\<close> from first to last.
\<close>

datatype llm = Default_llm | Code_llm

datatype agent = Agent (agent_config: string) (agent_llm: llm)

datatype task = Task (task_config: string) (task_agent: agent) (output_file: string)

record crew =
  crew_agents :: "agent list"
  crew_tasks :: "task list"

definition senior_developer :: agent where "senior_developer = Agent ''senior_developer'' Code_llm"
definition frontend_developer :: agent where "frontend_developer = Agent ''frontend_developer'' Code_llm"
definition backend_developer :: agent where "backend_developer = Agent ''backend_developer'' Code_llm"
definition devops_engineer :: agent where "devops_engineer = Agent ''devops_engineer'' Default_llm"
definition qa_engineer :: agent where "qa_engineer = Agent ''qa_engineer'' Default_llm"
definition tech_lead :: agent where "tech_lead = Agent ''tech_lead'' Default_llm"
definition business_analyst :: agent where "business_analyst = Agent ''business_analyst'' Default_llm"
definition security_specialist :: agent where "security_specialist = Agent ''security_specialist'' Default_llm"
definition database_admin :: agent where "database_admin = Agent ''database_admin'' Default_llm"
definition ui_ux_designer :: agent where "ui_ux_designer = Agent ''ui_ux_designer'' Default_llm"

definition agent_map :: "(string \<times> agent) list" where
  "agent_map =
     [(''senior_developer'', senior_developer),
      (''frontend_developer'', frontend_developer),
      (''backend_developer'', backend_developer),
      (''devops_engineer'', devops_engineer),
      (''qa_engineer'', qa_engineer),
      (''tech_lead'', tech_lead),
      (''business_analyst'', business_analyst),
      (''security_specialist'', security_specialist),
      (''database_admin'', database_admin),
      (''ui_ux_designer'', ui_ux_designer)]"

definition task_map :: "(string \<times> task) list" where
  "task_map =
     [(''analyze_project'',
         Task ''analyze_project'' business_analyst ''output/project_analysis.md''),
      (''design_architecture'',
         Task ''design_architecture'' tech_lead ''output/architecture_design.md''),
      (''develop_backend'',
         Task ''develop_backend'' backend_developer ''output/backend_implementation.md''),
      (''develop_frontend'',
         Task ''develop_frontend'' frontend_developer ''output/frontend_implementation.md''),
      (''design_database'',
         Task ''design_database'' database_admin ''output/database_design.md''),
      (''assess_security'',
         Task ''assess_security'' security_specialist ''output/security_assessment.md''),
      (''create_testing_strategy'',
         Task ''create_testing_strategy'' qa_engineer ''output/testing_strategy.md''),
      (''setup_devops'',
         Task ''setup_devops'' devops_engineer ''output/devops_setup.md''),
      (''design_user_experience'',
         Task ''design_user_experience'' ui_ux_designer ''output/ux_design.md''),
      (''review_code'',
         Task ''review_code'' senior_developer ''output/code_review.md'')]"

text \<open>
  The two comprehensions of \<open>create_custom_crew\<close>: the names are taken in the order of
  the argument lists, and a name that is no key of the map is skipped.
\<close>

definition create_custom_crew :: "string list \<Rightarrow> string list \<Rightarrow> crew" where
  "create_custom_crew agents_list tasks_list =
     \<lparr>crew_agents = List.map_filter (map_of agent_map) agents_list,
      crew_tasks = List.map_filter (map_of task_map) tasks_list\<rparr>"

text \<open>
  The place of a name in a list, counted from 0 (the length of the list when it is absent):
  the canonical position of a step is its place in \<open>available_tasks\<close>.
\<close>

fun position :: "'a list \<Rightarrow> 'a \<Rightarrow> nat" where
  "position [] y = 0"
| "position (x # xs) y = (if x = y then 0 else Suc (position xs y))"

definition canonical_positions :: "crew \<Rightarrow> nat list" where
  "canonical_positions c = map (\<lambda>t. position available_tasks (task_config t)) (crew_tasks c)"

section \<open>Calls into the operating system\<close>

text \<open>
  A call that leaves the program (file system, process, network) takes the state of the
  world and gives back the new state together with either the exception it raised or the
  value it returned. What the world does is a parameter of every tool below.
\<close>

type_synonym ('a, 'w) io = "'w \<Rightarrow> (exn + 'a) \<times> 'w"

definition io_return :: "'a \<Rightarrow> ('a, 'w) io" where
  "io_return x w = (Inr x, w)"

definition io_bind :: "('a, 'w) io \<Rightarrow> ('a \<Rightarrow> ('b, 'w) io) \<Rightarrow> ('b, 'w) io" where
  "io_bind m f w = (case m w of (Inl e, w') \<Rightarrow> (Inl e, w') | (Inr x, w') \<Rightarrow> f x w')"

text \<open>\<open>try: m except Exception as e: h e\<close>\<close>

definition try_except :: "('a, 'w) io \<Rightarrow> (exn \<Rightarrow> ('a, 'w) io) \<Rightarrow> ('a, 'w) io" where
  "try_except m h w = (case m w of (Inl e, w') \<Rightarrow> h e w' | (Inr x, w') \<Rightarrow> (Inr x, w'))"

text \<open>\<open>sep.join(xs)\<close>\<close>

fun join :: "string \<Rightarrow> string list \<Rightarrow> string" where
  "join sep [] = []"
| "join sep [x] = x"
| "join sep (x # y # ys) = x @ sep @ join sep (y # ys)"

text \<open>Truth value of an optional string argument: \<open>None\<close> and the empty string are false.\<close>

fun truthy :: "string option \<Rightarrow> bool" where
  "truthy None = False"
| "truthy (Some s) = (s \<noteq> [])"

section \<open>tools/file_system_tool.py\<close>

text \<open>
  The calls \<open>FileSystemTool._run\<close> makes on \<open>pathlib\<close> and \<open>shutil\<close>. A \<open>Path\<close> object is
  identified with the string it was built from; \<open>fs_parent\<close> and \<open>fs_name\<close> are the pure
  \<open>.parent\<close> and \<open>.name\<close>. \<open>fs_mkdir\<close> is \<open>mkdir(parents=True, exist_ok=True)\<close>, and
  \<open>fs_read_text\<close>, \<open>fs_write_text\<close> use the encoding utf-8.
\<close>

record 'w filesystem =
  fs_parent :: "string \<Rightarrow> string"
  fs_name :: "string \<Rightarrow> string"
  fs_exists :: "string \<Rightarrow> (bool, 'w) io"
  fs_is_dir :: "string \<Rightarrow> (bool, 'w) io"
  fs_mkdir :: "string \<Rightarrow> (unit, 'w) io"
  fs_touch :: "string \<Rightarrow> (unit, 'w) io"
  fs_read_text :: "string \<Rightarrow> (string, 'w) io"
  fs_write_text :: "string \<Rightarrow> string \<Rightarrow> (unit, 'w) io"
  fs_unlink :: "string \<Rightarrow> (unit, 'w) io"
  fs_rmtree :: "string \<Rightarrow> (unit, 'w) io"
  fs_iterdir :: "string \<Rightarrow> (string list, 'w) io"
  fs_copy2 :: "string \<Rightarrow> string \<Rightarrow> (unit, 'w) io"
  fs_move :: "string \<Rightarrow> string \<Rightarrow> (unit, 'w) io"

text \<open>The loop of \<open>list_dir\<close> over the entries of the directory.\<close>

fun list_items :: "'w filesystem \<Rightarrow> string list \<Rightarrow> string list \<Rightarrow> (string list, 'w) io" where
  "list_items fs [] items = io_return items"
| "list_items fs (item # rest) items =
     io_bind (fs_is_dir fs item) (\<lambda>d.
       list_items fs rest
         (items @ [(if d then ''DIR'' else ''FILE'') @ '': '' @ fs_name fs item]))"

text \<open>The body of the \<open>try\<close> statement of \<open>FileSystemTool._run\<close>.\<close>

definition FileSystemTool_body ::
  "'w filesystem \<Rightarrow> string \<Rightarrow> string \<Rightarrow> string option \<Rightarrow> string option \<Rightarrow> (string, 'w) io" where
  "FileSystemTool_body fs operation path content destination =
     (if operation = ''create_file'' then
        io_bind (fs_mkdir fs (fs_parent fs path)) (\<lambda>_.
        io_bind (fs_touch fs path) (\<lambda>_.
        io_return (''File created: '' @ path)))
      else if operation = ''read_file'' then
        io_bind (fs_exists fs path) (\<lambda>ex.
          if \<not> ex then io_return (''File not found: '' @ path)
          else fs_read_text fs path)
      else if operation = ''write_file'' then
        (case content of
           None \<Rightarrow> io_return ''Content is required for write operation''
         | Some c \<Rightarrow>
             io_bind (fs_mkdir fs (fs_parent fs path)) (\<lambda>_.
             io_bind (fs_write_text fs path c) (\<lambda>_.
             io_return (''Content written to: '' @ path))))
      else if operation = ''delete_file'' then
        io_bind (fs_exists fs path) (\<lambda>ex.
          if ex then io_bind (fs_unlink fs path) (\<lambda>_. io_return (''File deleted: '' @ path))
          else io_return (''File not found: '' @ path))
      else if operation = ''create_dir'' then
        io_bind (fs_mkdir fs path) (\<lambda>_. io_return (''Directory created: '' @ path))
      else if operation = ''delete_dir'' then
        io_bind (fs_exists fs path) (\<lambda>ex.
          if ex then io_bind (fs_rmtree fs path) (\<lambda>_. io_return (''Directory deleted: '' @ path))
          else io_return (''Directory not found: '' @ path))
      else if operation = ''list_dir'' then
        io_bind (fs_exists fs path) (\<lambda>ex.
          if \<not> ex then io_return (''Directory not found: '' @ path)
          else io_bind (fs_iterdir fs path) (\<lambda>entries.
               io_bind (list_items fs entries []) (\<lambda>items.
               io_return (join [CHR 0x0A] items))))
      else if operation = ''copy_file'' then
        (case destination of
           None \<Rightarrow> io_return ''Destination is required for copy operation''
         | Some dest \<Rightarrow>
             io_bind (fs_exists fs path) (\<lambda>ex.
               if \<not> ex then io_return (''Source file not found: '' @ path)
               else io_bind (fs_mkdir fs (fs_parent fs dest)) (\<lambda>_.
                    io_bind (fs_copy2 fs path dest) (\<lambda>_.
                    io_return (''File copied from '' @ path @ '' to '' @ dest)))))
      else if operation = ''move_file'' then
        (case destination of
           None \<Rightarrow> io_return ''Destination is required for move operation''
         | Some dest \<Rightarrow>
             io_bind (fs_exists fs path) (\<lambda>ex.
               if \<not> ex then io_return (''Source file not found: '' @ path)
               else io_bind (fs_mkdir fs (fs_parent fs dest)) (\<lambda>_.
                    io_bind (fs_move fs path dest) (\<lambda>_.
                    io_return (''File moved from '' @ path @ '' to '' @ dest)))))
      else io_return (''Unknown operation: '' @ operation))"

definition FileSystemTool_run ::
  "'w filesystem \<Rightarrow> string \<Rightarrow> string \<Rightarrow> string option \<Rightarrow> string option \<Rightarrow> (string, 'w) io" where
  "FileSystemTool_run fs operation path content destination =
     try_except (FileSystemTool_body fs operation path content destination)
       (\<lambda>e. io_return (''Error executing '' @ operation @ '': '' @ exn_str e))"

section \<open>tools/git_tool.py\<close>

record completed =
  returncode :: int
  stdout :: string
  stderr :: string

text \<open>
  The calls of \<open>GitTool._run\<close>: \<open>Path.cwd()\<close>, \<open>Path(path).resolve()\<close>, \<open>exists()\<close> and
  \<open>subprocess.run(args, capture_output=True, text=True, cwd=dir)\<close>.
\<close>

record 'w git_env =
  path_cwd :: "(string, 'w) io"
  path_resolve :: "string \<Rightarrow> (string, 'w) io"
  path_exists :: "string \<Rightarrow> (bool, 'w) io"
  subprocess_run :: "string list \<Rightarrow> string \<Rightarrow> (completed, 'w) io"

text \<open>
  To state which subprocesses a call started, the world is paired with the list of the
  \<open>subprocess.run\<close> invocations made so far (arguments and working directory): \<open>spawn\<close>
  appends to it, every other call leaves it alone.
\<close>

type_synonym invocation = "string list \<times> string"

definition spawn :: "'w git_env \<Rightarrow> string list \<Rightarrow> string \<Rightarrow> (completed, 'w \<times> invocation list) io" where
  "spawn env args dir = (\<lambda>(w, log).
     case subprocess_run env args dir w of (r, w') \<Rightarrow> (r, (w', log @ [(args, dir)])))"

definition quiet :: "('a, 'w) io \<Rightarrow> ('a, 'w \<times> invocation list) io" where
  "quiet m = (\<lambda>(w, log). case m w of (r, w') \<Rightarrow> (r, (w', log)))"

text \<open>
  The part of the \<open>try\<close> body that either returns a string at once (\<open>Inl\<close>) or binds
  \<open>result\<close> (\<open>Inr\<close>).
\<close>

definition GitTool_dispatch ::
  "'w git_env \<Rightarrow> string \<Rightarrow> string \<Rightarrow> string option \<Rightarrow> string option \<Rightarrow> string option \<Rightarrow>
     string \<Rightarrow> string \<Rightarrow> (string + completed, 'w \<times> invocation list) io" where
  "GitTool_dispatch env operation path message branch remote_url original_dir repo_path =
     (if operation = ''clone'' \<and> truthy remote_url then
        io_bind (spawn env [''git'', ''clone'', the remote_url, repo_path] original_dir)
          (\<lambda>result. io_return (Inr result))
      else
        io_bind (quiet (path_exists env repo_path)) (\<lambda>ex.
          if \<not> ex then io_return (Inl (''Path does not exist: '' @ path))
          else if operation = ''init'' then
            io_bind (spawn env [''git'', ''init''] repo_path) (\<lambda>result. io_return (Inr result))
          else if operation = ''add'' then
            io_bind (spawn env [''git'', ''add'', ''.''] repo_path) (\<lambda>result. io_return (Inr result))
          else if operation = ''commit'' then
            (if \<not> truthy message then io_return (Inl ''Commit message is required'')
             else io_bind (spawn env [''git'', ''commit'', ''-m'', the message] repo_path)
                    (\<lambda>result. io_return (Inr result)))
          else if operation = ''push'' then
            io_bind (spawn env [''git'', ''push''] repo_path) (\<lambda>result. io_return (Inr result))
          else if operation = ''pull'' then
            io_bind (spawn env [''git'', ''pull''] repo_path) (\<lambda>result. io_return (Inr result))
          else if operation = ''status'' then
            io_bind (spawn env [''git'', ''status''] repo_path) (\<lambda>result. io_return (Inr result))
          else if operation = ''branch'' then
            (if truthy branch
             then io_bind (spawn env [''git'', ''branch'', the branch] repo_path)
                    (\<lambda>result. io_return (Inr result))
             else io_bind (spawn env [''git'', ''branch''] repo_path)
                    (\<lambda>result. io_return (Inr result)))
          else if operation = ''checkout'' then
            (if \<not> truthy branch then io_return (Inl ''Branch name is required for checkout'')
             else io_bind (spawn env [''git'', ''checkout'', the branch] repo_path)
                    (\<lambda>result. io_return (Inr result)))
          else io_return (Inl (''Unknown Git operation: '' @ operation))))"

definition GitTool_body ::
  "'w git_env \<Rightarrow> string \<Rightarrow> string \<Rightarrow> string option \<Rightarrow> string option \<Rightarrow> string option \<Rightarrow>
     (string, 'w \<times> invocation list) io" where
  "GitTool_body env operation path message branch remote_url =
     io_bind (quiet (path_cwd env)) (\<lambda>original_dir.
     io_bind (quiet (path_resolve env path)) (\<lambda>repo_path.
     io_bind (GitTool_dispatch env operation path message branch remote_url original_dir repo_path)
       (\<lambda>r. case r of
          Inl early \<Rightarrow> io_return early
        | Inr result \<Rightarrow>
            if returncode result = 0
            then io_return (''Git '' @ operation @ '' successful:'' @ [CHR 0x0A] @ stdout result)
            else io_return (''Git '' @ operation @ '' failed:'' @ [CHR 0x0A] @ stderr result))))"

definition GitTool_run ::
  "'w git_env \<Rightarrow> string \<Rightarrow> string \<Rightarrow> string option \<Rightarrow> string option \<Rightarrow> string option \<Rightarrow>
     (string, 'w \<times> invocation list) io" where
  "GitTool_run env operation path message branch remote_url =
     try_except (GitTool_body env operation path message branch remote_url)
       (\<lambda>e. io_return (''Error executing Git '' @ operation @ '': '' @ exn_str e))"

section \<open>tools/web_research_tool.py\<close>

text \<open>
  A decoded JSON document. Numbers, booleans and null are kept only as their truth value
  and their \<open>str()\<close>, which is all the tool reads of them.
\<close>

datatype json =
    JDict "(string \<times> json) list"
  | JList "json list"
  | JStr string
  | JAtom bool string

record response =
  status_code :: int
  resp_content :: string
  json_body :: "exn + json"

text \<open>
  \<open>requests.get(url, headers=..., timeout=10)\<close>, the text BeautifulSoup extracts from a
  page once its script and style elements are removed, and \<open>str()\<close> of a decoded list or
  dictionary.
\<close>

record 'w web_env =
  requests_get :: "string \<Rightarrow> (string \<times> string) list \<Rightarrow> (response, 'w) io"
  soup_text :: "string \<Rightarrow> exn + string"
  container_str :: "json \<Rightarrow> string"

fun json_truth :: "json \<Rightarrow> bool" where
  "json_truth (JDict kvs) = (kvs \<noteq> [])"
| "json_truth (JList xs) = (xs \<noteq> [])"
| "json_truth (JStr s) = (s \<noteq> [])"
| "json_truth (JAtom b _) = b"

text \<open>\<open>f"{v}"\<close>\<close>

definition format_json :: "'w web_env \<Rightarrow> json \<Rightarrow> string" where
  "format_json env v = (case v of JStr s \<Rightarrow> s | JAtom _ r \<Rightarrow> r | _ \<Rightarrow> container_str env v)"

text \<open>\<open>data.get(key)\<close>: only a dictionary has the method.\<close>

definition json_get :: "json \<Rightarrow> string \<Rightarrow> exn + json option" where
  "json_get data key =
     (case data of
        JDict kvs \<Rightarrow> Inr (map_of kvs key)
      | _ \<Rightarrow> Inl (Exn ''AttributeError'' (''object has no attribute '' @ [CHR 0x27] @ ''get'' @ [CHR 0x27])))"

text \<open>\<open>v[:5]\<close>, as the list of the elements the \<open>for\<close> loop then visits.\<close>

definition first_five :: "json \<Rightarrow> exn + json list" where
  "first_five v =
     (case v of
        JList xs \<Rightarrow> Inr (take 5 xs)
      | JStr s \<Rightarrow> Inr (map (\<lambda>c. JStr [c]) (take 5 s))
      | JDict _ \<Rightarrow> Inl (Exn ''TypeError'' ''unhashable type: slice'')
      | JAtom _ _ \<Rightarrow> Inl (Exn ''TypeError'' ''object is not subscriptable''))"

text \<open>The loop over the related topics, appending to \<open>result\<close>.\<close>

fun add_topics :: "'w web_env \<Rightarrow> json list \<Rightarrow> string \<Rightarrow> string" where
  "add_topics env [] result = result"
| "add_topics env (topic # topics) result =
     (case topic of
        JDict kvs \<Rightarrow>
          (case map_of kvs ''Text'' of
             Some t \<Rightarrow> add_topics env topics (result @ ''- '' @ format_json env t @ [CHR 0x0A])
           | None \<Rightarrow> add_topics env topics result)
      | _ \<Rightarrow> add_topics env topics result)"

text \<open>The text built from a decoded answer of the search service.\<close>

definition search_report :: "'w web_env \<Rightarrow> string \<Rightarrow> json \<Rightarrow> exn + string" where
  "search_report env query data =
     (let result = ''Search results for: '' @ query @ [CHR 0x0A, CHR 0x0A] in
      case json_get data ''Abstract'' of
        Inl e \<Rightarrow> Inl e
      | Inr abstract \<Rightarrow>
          (let result = (case abstract of
                           Some a \<Rightarrow> if json_truth a
                                     then result @ ''Summary: '' @ format_json env a @ [CHR 0x0A, CHR 0x0A]
                                     else result
                         | None \<Rightarrow> result) in
           case json_get data ''RelatedTopics'' of
             Inl e \<Rightarrow> Inl e
           | Inr related \<Rightarrow>
               (case (case related of
                        Some r \<Rightarrow> if json_truth r
                                  then (case first_five r of
                                          Inl e \<Rightarrow> Inl e
                                        | Inr topics \<Rightarrow>
                                            Inr (add_topics env topics (result @ ''Related Topics:'' @ [CHR 0x0A])))
                                  else Inr result
                      | None \<Rightarrow> Inr result) of
                  Inl e \<Rightarrow> Inl e
                | Inr result \<Rightarrow>
                    Inr (if length result > 50 then result
                         else ''No detailed results found for this query''))))"

definition io_of :: "exn + 'a \<Rightarrow> ('a, 'w) io" where
  "io_of r w = (r, w)"

definition search_web :: "'w web_env \<Rightarrow> string \<Rightarrow> (string, 'w) io" where
  "search_web env query =
     try_except
       (io_bind (requests_get env
                   (''https://api.duckduckgo.com/?q='' @ query @ ''&format=json&no_html=1&skip_disambig=1'')
                   [])
          (\<lambda>response.
             if status_code response = 200 then
               io_bind (io_of (json_body response)) (\<lambda>data. io_of (search_report env query data))
             else io_return (''Search failed with status code: '' @ str_int (status_code response))))
       (\<lambda>e. io_return (''Error searching web: '' @ exn_str e))"

text \<open>\<open>s.splitlines()\<close>: the line boundaries among the code points of the model.\<close>

definition linebreak :: "char \<Rightarrow> bool" where
  "linebreak c = (c \<in> set [CHR 0x0A, CHR 0x0B, CHR 0x0C, CHR 0x0D, CHR 0x1C, CHR 0x1D, CHR 0x1E, CHR 0x85])"

fun splitlines_from :: "string \<Rightarrow> string \<Rightarrow> string list" where
  "splitlines_from cur [] = (if cur = [] then [] else [rev cur])"
| "splitlines_from cur [c] = (if linebreak c then [rev cur] else [rev (c # cur)])"
| "splitlines_from cur (c # d # cs) =
     (if c = CHR 0x0D \<and> d = CHR 0x0A then rev cur # splitlines_from [] cs
      else if linebreak c then rev cur # splitlines_from [] (d # cs)
      else splitlines_from (c # cur) (d # cs))"

definition splitlines :: "string \<Rightarrow> string list" where
  "splitlines s = splitlines_from [] s"

text \<open>\<open>s.split("  ")\<close>: the separator is two blanks.\<close>

fun split_blanks_from :: "string \<Rightarrow> string \<Rightarrow> string list" where
  "split_blanks_from cur [] = [rev cur]"
| "split_blanks_from cur [c] = [rev (c # cur)]"
| "split_blanks_from cur (c # d # cs) =
     (if c = CHR '' '' \<and> d = CHR '' '' then rev cur # split_blanks_from [] cs
      else split_blanks_from (c # cur) (d # cs))"

definition clean_text :: "string \<Rightarrow> string" where
  "clean_text text =
     (let lines = map strip (splitlines text);
          chunks = map strip (concat (map (split_blanks_from []) lines))
      in join [CHR 0x0A] (filter (\<lambda>chunk. chunk \<noteq> []) chunks))"

definition scrape_url :: "'w web_env \<Rightarrow> string \<Rightarrow> (string, 'w) io" where
  "scrape_url env url =
     try_except
       (io_bind (requests_get env url
                   [(''User-Agent'', ''Mozilla/5.0 (Windows NT 10.0; Win64; x64) AppleWebKit/537.36'')])
          (\<lambda>response.
             if status_code response = 200 then
               io_bind (io_of (soup_text env (resp_content response))) (\<lambda>raw.
                 let text = clean_text raw;
                     text = (if length text > 2000 then take 2000 text @ ''... (truncated)'' else text)
                 in io_return (''Content from '' @ url @ '':'' @ [CHR 0x0A, CHR 0x0A] @ text))
             else io_return (''Failed to scrape URL. Status code: '' @ str_int (status_code response))))
       (\<lambda>e. io_return (''Error scraping URL: '' @ exn_str e))"

text \<open>\<open>sub in s\<close>\<close>

fun starts_with :: "string \<Rightarrow> string \<Rightarrow> bool" where
  "starts_with s [] = True"
| "starts_with [] (y # ys) = False"
| "starts_with (x # xs) (y # ys) = (x = y \<and> starts_with xs ys)"

fun contains :: "string \<Rightarrow> string \<Rightarrow> bool" where
  "contains [] sub = (sub = [])"
| "contains (x # xs) sub = (starts_with (x # xs) sub \<or> contains xs sub)"

text \<open>The loop of \<open>_search_documentation\<close> over the site queries, with its bare \<open>except\<close>.\<close>

fun search_sites :: "'w web_env \<Rightarrow> string list \<Rightarrow> string list \<Rightarrow> (string list, 'w) io" where
  "search_sites env [] results = io_return results"
| "search_sites env (site_query # rest) results =
     io_bind
       (try_except
          (io_bind (search_web env site_query) (\<lambda>search_result.
             io_return (if search_result \<noteq> [] \<and> \<not> contains search_result ''No detailed results''
                        then results @ [search_result] else results)))
          (\<lambda>e. io_return results))
       (\<lambda>results. search_sites env rest results)"

definition search_documentation :: "'w web_env \<Rightarrow> string \<Rightarrow> (string, 'w) io" where
  "search_documentation env query =
     try_except
       (let doc_sites = [''site:docs.python.org '' @ query,
                         ''site:developer.mozilla.org '' @ query,
                         ''site:stackoverflow.com '' @ query,
                         ''site:github.com '' @ query]
        in io_bind (search_sites env (take 2 doc_sites) []) (\<lambda>results.
             if results \<noteq> [] then io_return (join [CHR 0x0A, CHR 0x0A] results)
             else io_return (''No documentation found for: '' @ query)))
       (\<lambda>e. io_return (''Error searching documentation: '' @ exn_str e))"

text \<open>The body of the \<open>try\<close> statement of \<open>WebResearchTool._run\<close>.\<close>

definition WebResearchTool_body :: "'w web_env \<Rightarrow> string \<Rightarrow> string \<Rightarrow> string option \<Rightarrow> (string, 'w) io" where
  "WebResearchTool_body env operation query url =
     (if operation = ''search'' then search_web env query
      else if operation = ''scrape'' \<and> truthy url then scrape_url env (the url)
      else if operation = ''documentation'' then search_documentation env query
      else io_return (''Unknown operation: '' @ operation))"

definition WebResearchTool_run :: "'w web_env \<Rightarrow> string \<Rightarrow> string \<Rightarrow> string option \<Rightarrow> (string, 'w) io" where
  "WebResearchTool_run env operation query url =
     try_except (WebResearchTool_body env operation query url)
       (\<lambda>e. io_return (''Error in web research: '' @ exn_str e))"

section \<open>main.py: the entry points\<close>

text \<open>
  How a run of the script ends: \<open>sys.exit(n)\<close>, a normal return of the entry function,
  or an exception that nothing catches. The interpreter turns the last two into the exit
  statuses 0 and 1.
\<close>

datatype 'r outcome = SysExit int | Returned 'r | Uncaught exn

fun exit_code :: "'r outcome \<Rightarrow> int" where
  "exit_code (SysExit n) = n"
| "exit_code (Returned _) = 0"
| "exit_code (Uncaught _) = 1"

text \<open>
  The orchestration framework: constructing \<open>AiDevTeamCrew()\<close> and running
  \<open>kickoff(inputs={'project_description': d})\<close> on a crew either raise or return.
  Printing, reading a line, \<open>load_dotenv\<close> and creating the output directory are taken
  to return; the lines typed at the prompts are arguments.
\<close>

record 'r framework =
  new_crew :: "exn + unit"
  kickoff :: "crew \<Rightarrow> string \<Rightarrow> exn + 'r"

text \<open>The crew of all agents and tasks, in the order the class declares them.\<close>

definition full_crew :: crew where
  "full_crew = \<lparr>crew_agents = map snd agent_map, crew_tasks = map snd task_map\<rparr>"

definition main :: "'r framework \<Rightarrow> string list \<Rightarrow> string \<Rightarrow> 'r outcome" where
  "main fw argv typed =
     (let project_description = (if length argv > 1 then join '' '' (tl argv) else typed) in
      if strip project_description = [] then SysExit 1
      else (case new_crew fw of
              Inl e \<Rightarrow> SysExit 1
            | Inr _ \<Rightarrow>
                (case kickoff fw full_crew project_description of
                   Inl e \<Rightarrow> SysExit 1
                 | Inr result \<Rightarrow> Returned result)))"

definition run_custom_workflow :: "'r framework \<Rightarrow> string \<Rightarrow> string \<Rightarrow> string \<Rightarrow> 'r outcome" where
  "run_custom_workflow fw typed_agents typed_tasks typed_description =
     (let agent_selection = strip typed_agents;
          task_selection = strip typed_tasks;
          project_description = strip typed_description in
      if agent_selection = [] \<or> task_selection = [] \<or> project_description = [] then SysExit 1
      else (case parse_selection agent_selection available_agents of
              Inl e \<Rightarrow> Uncaught e
            | Inr selected_agents \<Rightarrow>
                (case parse_selection task_selection available_tasks of
                   Inl e \<Rightarrow> Uncaught e
                 | Inr selected_tasks \<Rightarrow>
                     if selected_agents = [] \<or> selected_tasks = [] then SysExit 1
                     else (case new_crew fw of
                             Inl e \<Rightarrow> SysExit 1
                           | Inr _ \<Rightarrow>
                               (case kickoff fw (create_custom_crew selected_agents selected_tasks)
                                       project_description of
                                  Inl e \<Rightarrow> SysExit 1
                                | Inr result \<Rightarrow> Returned result)))))"

text \<open>The \<open>__main__\<close> block; \<open>typed\<close> gives the lines entered at the prompts, in order.\<close>

definition script :: "'r framework \<Rightarrow> string list \<Rightarrow> (nat \<Rightarrow> string) \<Rightarrow> 'r outcome" where
  "script fw argv typed =
     (if length argv > 1 \<and> argv ! 1 = ''--custom''
      then run_custom_workflow fw (typed 0) (typed 1) (typed 2)
      else main fw argv (typed 0))"

section \<open>A file store for the text files the tool writes and reads\<close>

text \<open>
  A small model of the file system behind \<open>pathlib\<close>, to state what a read returns after
  a write. A path is a string of components separated by \<open>/\<close>; the store lists the
  existing paths, the newest entry for a path first. A regular file holds the text that
  its bytes decode to.

  \<open>write_text\<close> and \<open>read_text\<close> open the file in text mode with the default
  \<open>newline=None\<close>: on writing, every line feed becomes the line separator of the
  platform (\<open>linesep\<close>, a line feed on POSIX, carriage return and line feed on Windows); on
  reading, \<open>\r\n\<close> and a single \<open>\r\<close> both become a line feed.
\<close>

datatype node = File string | Dir

type_synonym store = "(string \<times> node) list"

fun write_newlines :: "string \<Rightarrow> string \<Rightarrow> string" where
  "write_newlines linesep [] = []"
| "write_newlines linesep (c # cs) =
     (if c = CHR 0x0A then linesep @ write_newlines linesep cs
      else c # write_newlines linesep cs)"

fun universal_newlines :: "string \<Rightarrow> string" where
  "universal_newlines [] = []"
| "universal_newlines [c] = [if c = CHR 0x0D then CHR 0x0A else c]"
| "universal_newlines (c # d # cs) =
     (if c = CHR 0x0D \<and> d = CHR 0x0A then CHR 0x0A # universal_newlines cs
      else if c = CHR 0x0D then CHR 0x0A # universal_newlines (d # cs)
      else c # universal_newlines (d # cs))"

text \<open>The text before the last \<open>/\<close> of a path, and the text after it.\<close>

definition store_parent :: "string \<Rightarrow> string" where
  "store_parent p =
     (if CHR ''/'' \<in> set p then rev (tl (dropWhile (\<lambda>c. c \<noteq> CHR ''/'') (rev p))) else ''.'')"

definition store_name :: "string \<Rightarrow> string" where
  "store_name p = rev (takeWhile (\<lambda>c. c \<noteq> CHR ''/'') (rev p))"

definition under :: "string \<Rightarrow> string \<Rightarrow> bool" where
  "under d p = (p = d \<or> starts_with p (d @ ''/''))"

definition raise :: "string \<Rightarrow> string \<Rightarrow> ('a, 'w) io" where
  "raise cls msg w = (Inl (Exn cls msg), w)"

definition store_fs :: "string \<Rightarrow> store filesystem" where
  "store_fs linesep =
     \<lparr>fs_parent = store_parent,
      fs_name = store_name,
      fs_exists = (\<lambda>p st. (Inr (map_of st p \<noteq> None), st)),
      fs_is_dir = (\<lambda>p st. (Inr (map_of st p = Some Dir), st)),
      fs_mkdir = (\<lambda>p st.
         case map_of st p of
           Some (File _) \<Rightarrow> raise ''FileExistsError'' p st
         | Some Dir \<Rightarrow> (Inr (), st)
         | None \<Rightarrow> (Inr (), (p, Dir) # st)),
      fs_touch = (\<lambda>p st.
         case map_of st p of
           None \<Rightarrow> (Inr (), (p, File []) # st)
         | Some _ \<Rightarrow> (Inr (), st)),
      fs_read_text = (\<lambda>p st.
         case map_of st p of
           None \<Rightarrow> raise ''FileNotFoundError'' p st
         | Some Dir \<Rightarrow> raise ''IsADirectoryError'' p st
         | Some (File text) \<Rightarrow> (Inr (universal_newlines text), st)),
      fs_write_text = (\<lambda>p data st.
         case map_of st p of
           Some Dir \<Rightarrow> raise ''IsADirectoryError'' p st
         | _ \<Rightarrow>
             if map_of st (store_parent p) = Some Dir
             then (Inr (), (p, File (write_newlines linesep data)) # st)
             else raise ''FileNotFoundError'' p st),
      fs_unlink = (\<lambda>p st.
         case map_of st p of
           None \<Rightarrow> raise ''FileNotFoundError'' p st
         | Some Dir \<Rightarrow> raise ''IsADirectoryError'' p st
         | Some (File _) \<Rightarrow> (Inr (), filter (\<lambda>(q, _). q \<noteq> p) st)),
      fs_rmtree = (\<lambda>p st.
         case map_of st p of
           None \<Rightarrow> raise ''FileNotFoundError'' p st
         | Some (File _) \<Rightarrow> raise ''NotADirectoryError'' p st
         | Some Dir \<Rightarrow> (Inr (), filter (\<lambda>(q, _). \<not> under p q) st)),
      fs_iterdir = (\<lambda>p st.
         case map_of st p of
           None \<Rightarrow> raise ''FileNotFoundError'' p st
         | Some (File _) \<Rightarrow> raise ''NotADirectoryError'' p st
         | Some Dir \<Rightarrow> (Inr (remdups (filter (\<lambda>q. store_parent q = p) (map fst st))), st)),
      fs_copy2 = (\<lambda>src dst st.
         case map_of st src of
           None \<Rightarrow> raise ''FileNotFoundError'' src st
         | Some Dir \<Rightarrow> raise ''IsADirectoryError'' src st
         | Some (File text) \<Rightarrow>
             (case map_of st dst of
                Some Dir \<Rightarrow> (Inr (), (dst @ ''/'' @ store_name src, File text) # st)
              | _ \<Rightarrow> (Inr (), (dst, File text) # st))),
      fs_move = (\<lambda>src dst st.
         case map_of st src of
           None \<Rightarrow> raise ''FileNotFoundError'' src st
         | Some Dir \<Rightarrow> raise ''IsADirectoryError'' src st
         | Some (File text) \<Rightarrow>
             (case map_of st dst of
                Some Dir \<Rightarrow> (Inr (), (dst @ ''/'' @ store_name src, File text)
                                        # filter (\<lambda>(q, _). q \<noteq> src) st)
              | _ \<Rightarrow> (Inr (), (dst, File text) # filter (\<lambda>(q, _). q \<noteq> src) st)))\<rparr>"

section \<open>Sample environments\<close>

text \<open>
  A version-control environment in which the working directory is \<open>/work\<close>, every path
  resolves below it, \<open>exists\<close> answers \<open>present\<close> for every path and every subprocess ends
  with status 0 and no output.
\<close>

definition sample_git_env :: "bool \<Rightarrow> unit git_env" where
  "sample_git_env present =
     \<lparr>path_cwd = io_return ''/work'',
      path_resolve = (\<lambda>p. io_return (''/work/'' @ p)),
      path_exists = (\<lambda>p. io_return present),
      subprocess_run = (\<lambda>args dir. io_return \<lparr>returncode = 0, stdout = [], stderr = []\<rparr>)\<rparr>"

text \<open>A framework in which constructing and running a crew always succeed.\<close>

definition sample_framework :: "string framework" where
  "sample_framework = \<lparr>new_crew = Inr (), kickoff = (\<lambda>c d. Inr ''OK'')\<rparr>"

text \<open>A network on which every request fails.\<close>

definition offline_web :: "unit web_env" where
  "offline_web =
     \<lparr>requests_get = (\<lambda>url headers. raise ''ConnectionError'' ''unreachable''),
      soup_text = (\<lambda>c. Inr c),
      container_str = (\<lambda>v. [])\<rparr>"

section \<open>The tools never raise\<close>

lemma try_except_returns:
  "fst (try_except m (\<lambda>e. io_return (h e)) w) = Inr (case fst (m w) of Inl e \<Rightarrow> h e | Inr s \<Rightarrow> s)"
  by (cases "m w") (auto simp: try_except_def io_return_def split: sum.splits)

text \<open>
  C1. Whatever the operation name, the arguments and the behaviour of the operating
  system, \<open>_run\<close> of the three tools returns a string: the string its body returned, or,
  when a call in the body raised, the description of that failure.
\<close>

theorem tool_run_never_raises:
  "fst (FileSystemTool_run fs operation path content destination w) =
     Inr (case fst (FileSystemTool_body fs operation path content destination w) of
            Inl e \<Rightarrow> ''Error executing '' @ operation @ '': '' @ exn_str e
          | Inr s \<Rightarrow> s)
   \<and> fst (GitTool_run env operation path message branch remote_url wl) =
     Inr (case fst (GitTool_body env operation path message branch remote_url wl) of
            Inl e \<Rightarrow> ''Error executing Git '' @ operation @ '': '' @ exn_str e
          | Inr s \<Rightarrow> s)
   \<and> fst (WebResearchTool_run wenv operation query url ww) =
     Inr (case fst (WebResearchTool_body wenv operation query url ww) of
            Inl e \<Rightarrow> ''Error in web research: '' @ exn_str e
          | Inr s \<Rightarrow> s)"
  unfolding FileSystemTool_run_def GitTool_run_def WebResearchTool_run_def
  by (simp only: try_except_returns simp_thms)

section \<open>Deleting a file that is not there\<close>

text \<open>
  C7. When \<open>exists()\<close> answers no for the path, \<open>delete_file\<close> returns the string
  \<open>File not found: <path>\<close>; it raises nothing and makes no further call.
\<close>

theorem delete_file_not_found:
  assumes "fs_exists fs path w = (Inr False, w')"
  shows "FileSystemTool_run fs ''delete_file'' path content destination w
           = (Inr (''File not found: '' @ path), w')"
  using assms
  by (simp add: FileSystemTool_run_def FileSystemTool_body_def try_except_def io_bind_def io_return_def)

theorem delete_file_not_found_witness:
  "fs_exists (store_fs [CHR 0x0A]) ''gone.txt'' [] = (Inr False, [])
   \<and> FileSystemTool_run (store_fs [CHR 0x0A]) ''delete_file'' ''gone.txt'' None None []
       = (Inr ''File not found: gone.txt'', [])"
proof -
  have h: "fs_exists (store_fs [CHR 0x0A]) ''gone.txt'' [] = (Inr False, [])"
    by (simp add: store_fs_def)
  show ?thesis
    using h delete_file_not_found [OF h, of None None] by simp
qed

section \<open>The version-control tool checks the path first\<close>

text \<open>
  C9. Unless the operation is \<open>clone\<close> with a remote URL, a repository path that does not
  exist makes \<open>GitTool._run\<close> return \<open>Path does not exist: <path>\<close> with no subprocess
  started. The check comes before the arguments of the operation are looked at: the
  statement holds for every operation, message and branch, so a \<open>commit\<close> without message
  reports the path.
\<close>

theorem git_missing_path_first:
  assumes "\<not> (operation = ''clone'' \<and> truthy remote_url)"
    and "path_cwd env w = (Inr original_dir, w1)"
    and "path_resolve env path w1 = (Inr repo_path, w2)"
    and "path_exists env repo_path w2 = (Inr False, w3)"
  shows "GitTool_run env operation path message branch remote_url (w, calls)
           = (Inr (''Path does not exist: '' @ path), (w3, calls))"
proof -
  have guard: "(operation = ''clone'' \<and> truthy remote_url) = False"
    using assms(1) by simp
  have "GitTool_dispatch env operation path message branch remote_url original_dir repo_path (w2, calls)
          = (Inr (Inl (''Path does not exist: '' @ path)), (w3, calls))"
    unfolding GitTool_dispatch_def guard using assms(4)
    by (simp add: io_bind_def io_return_def quiet_def)
  then show ?thesis
    using assms(2,3)
    by (simp add: GitTool_run_def GitTool_body_def try_except_def io_bind_def io_return_def quiet_def)
qed

theorem git_missing_path_first_witness:
  "\<not> (''commit'' = ''clone'' \<and> truthy None)
   \<and> path_cwd (sample_git_env False) () = (Inr ''/work'', ())
   \<and> path_resolve (sample_git_env False) ''repo'' () = (Inr ''/work/repo'', ())
   \<and> path_exists (sample_git_env False) ''/work/repo'' () = (Inr False, ())
   \<and> GitTool_run (sample_git_env False) ''commit'' ''repo'' None None None ((), [])
       = (Inr ''Path does not exist: repo'', ((), []))"
proof -
  have a: "\<not> (''commit'' = ''clone'' \<and> truthy None)" by simp
  have b: "path_cwd (sample_git_env False) () = (Inr ''/work'', ())"
    by (simp add: sample_git_env_def io_return_def)
  have c: "path_resolve (sample_git_env False) ''repo'' () = (Inr ''/work/repo'', ())"
    by (simp add: sample_git_env_def io_return_def)
  have d: "path_exists (sample_git_env False) ''/work/repo'' () = (Inr False, ())"
    by (simp add: sample_git_env_def io_return_def)
  show ?thesis
    using a b c d git_missing_path_first [OF a b c d, of None None "[]"] by simp
qed

section \<open>A commit needs a message\<close>

text \<open>
  C5. For \<open>commit\<close> on a repository path that exists, with no message (none given, or the
  empty string), \<open>GitTool._run\<close> returns \<open>Commit message is required\<close> and starts no
  subprocess: the list of invocations is the one it was called with.
\<close>

theorem commit_without_message:
  assumes "\<not> truthy message"
    and "path_cwd env w = (Inr original_dir, w1)"
    and "path_resolve env path w1 = (Inr repo_path, w2)"
    and "path_exists env repo_path w2 = (Inr True, w3)"
  shows "GitTool_run env ''commit'' path message branch remote_url (w, calls)
           = (Inr ''Commit message is required'', (w3, calls))"
  using assms
  by (simp add: GitTool_run_def GitTool_body_def GitTool_dispatch_def try_except_def io_bind_def
        io_return_def quiet_def)

theorem commit_without_message_witness:
  "\<not> truthy None
   \<and> path_cwd (sample_git_env True) () = (Inr ''/work'', ())
   \<and> path_resolve (sample_git_env True) ''repo'' () = (Inr ''/work/repo'', ())
   \<and> path_exists (sample_git_env True) ''/work/repo'' () = (Inr True, ())
   \<and> GitTool_run (sample_git_env True) ''commit'' ''repo'' None None None ((), [])
       = (Inr ''Commit message is required'', ((), []))"
proof -
  have a: "\<not> truthy None" by simp
  have b: "path_cwd (sample_git_env True) () = (Inr ''/work'', ())"
    by (simp add: sample_git_env_def io_return_def)
  have c: "path_resolve (sample_git_env True) ''repo'' () = (Inr ''/work/repo'', ())"
    by (simp add: sample_git_env_def io_return_def)
  have d: "path_exists (sample_git_env True) ''/work/repo'' () = (Inr True, ())"
    by (simp add: sample_git_env_def io_return_def)
  show ?thesis
    using a b c d commit_without_message [OF a b c d, of None None "[]"] by simp
qed

section \<open>Selections\<close>

lemma split_on_not_Nil: "split_on sep s \<noteq> []"
  by (induction s) (auto split: list.splits)

lemma split_on_append: "split_on sep (a @ sep # b) = split_on sep a @ split_on sep b"
proof (induction a)
  case Nil
  show ?case by simp
next
  case (Cons c a)
  obtain p ps where ps: "split_on sep a = p # ps"
    using split_on_not_Nil [of sep a] by (cases "split_on sep a") auto
  show ?case using Cons ps by simp
qed

lemma split_on_no_sep: "sep \<notin> set s \<Longrightarrow> split_on sep s = [s]"
  by (induction s) auto

lemma parse_items_acc:
  "parse_items items av sel = (case parse_items items av [] of Inl e \<Rightarrow> Inl e | Inr r \<Rightarrow> Inr (sel @ r))"
proof (induction items arbitrary: sel)
  case Nil
  show ?case by simp
next
  case (Cons raw items)
  have a: "\<And>x. parse_items items av (sel @ [x]) = (case parse_items items av [] of Inl e \<Rightarrow> Inl e | Inr r \<Rightarrow> Inr (sel @ x # r))"
    using Cons [of "sel @ [x]" for x] by (simp split: sum.splits)
  have b: "\<And>x. parse_items items av [x] = (case parse_items items av [] of Inl e \<Rightarrow> Inl e | Inr r \<Rightarrow> Inr (x # r))"
    using Cons [of "[x]" for x] by (simp split: sum.splits)
  show ?case
    by (simp add: Let_def a b Cons [of sel] split: sum.splits)
qed

lemma parse_items_append:
  "parse_items (xs @ ys) av sel =
     (case parse_items xs av sel of Inl e \<Rightarrow> Inl e | Inr r \<Rightarrow> parse_items ys av r)"
  by (induction xs arbitrary: sel) (auto simp: Let_def split: sum.splits)

lemma parse_selection_append:
  assumes "parse_selection a av = Inr xs" and "parse_selection b av = Inr ys"
  shows "parse_selection (a @ '','' @ b) av = Inr (xs @ ys)"
proof -
  have "parse_selection (a @ '','' @ b) av
          = parse_items (split_on CHR '','' a @ split_on CHR '','' b) av []"
    by (simp add: parse_selection_def split_on_append)
  also have "\<dots> = parse_items (split_on CHR '','' b) av xs"
    using assms(1) by (simp add: parse_items_append parse_selection_def)
  also have "\<dots> = Inr (xs @ ys)"
    using assms(2) parse_items_acc [of "split_on CHR '','' b" av xs]
    by (simp add: parse_selection_def)
  finally show ?thesis .
qed

lemma parse_items_subset:
  "parse_items items av sel = Inr r \<Longrightarrow> set sel \<subseteq> set av \<Longrightarrow> set r \<subseteq> set av"
proof (induction items arbitrary: sel)
  case Nil
  then show ?case by simp
next
  case (Cons raw items)
  then show ?case
    by (auto simp: Let_def split: if_splits sum.splits)
qed

lemma parse_selection_subset: "parse_selection s av = Inr r \<Longrightarrow> set r \<subseteq> set av"
  unfolding parse_selection_def using parse_items_subset [of _ av "[]" r] by simp

text \<open>
  A token that, once stripped, is a decimal numeral that \<open>int\<close> converts to \<open>k\<close> selects
  the element at index \<open>k - 1\<close> of the available list when \<open>1 \<le> k \<le> length\<close>, and nothing
  otherwise. A selection made of two parts yields the names of the first part followed
  by those of the second: nothing is removed when a name occurs twice.
\<close>

lemma decimal_token_one_based:
  assumes "CHR '','' \<notin> set tok" and "isdigit (strip tok)" and "py_int (strip tok) = Inr k"
    and "parse_selection a avail = Inr xs" and "parse_selection b avail = Inr ys"
  shows "parse_selection tok avail =
           Inr (if 1 \<le> k \<and> k \<le> int (length avail) then [avail ! nat (k - 1)] else [])
         \<and> parse_selection (a @ '','' @ b) avail = Inr (xs @ ys)"
proof
  have "(0 \<le> k - 1 \<and> k - 1 < int (length avail)) = (1 \<le> k \<and> k \<le> int (length avail))"
    by auto
  then show "parse_selection tok avail =
           Inr (if 1 \<le> k \<and> k \<le> int (length avail) then [avail ! nat (k - 1)] else [])"
    using assms(2,3) split_on_no_sep [OF assms(1)]
    by (simp add: parse_selection_def Let_def)
  show "parse_selection (a @ '','' @ b) avail = Inr (xs @ ys)"
    using assms(4,5) by (rule parse_selection_append)
qed

lemma decimal_token_examples:
  "parse_selection '' 10 '' available_agents = Inr [''ui_ux_designer'']
   \<and> parse_selection ''0,11'' available_agents = Inr []
   \<and> parse_selection ''1,senior_developer'' available_agents
        = Inr [''senior_developer'', ''senior_developer'']"
  by code_simp

text \<open>
  A numeral of more digits than \<open>int\<close> converts is beyond the length of every list of
  that many names or fewer, but it is not dropped: the conversion raises.
\<close>

lemma dropWhile_unchanged: "xs \<noteq> [] \<Longrightarrow> \<not> P (hd xs) \<Longrightarrow> dropWhile P xs = xs"
  by (cases xs) auto

lemma strip_unchanged:
  assumes "s \<noteq> []" and "\<not> py_isspace (hd s)" and "\<not> py_isspace (last s)"
  shows "strip s = s"
proof -
  have a: "dropWhile py_isspace s = s"
    using assms(1,2) by (rule dropWhile_unchanged)
  have "rev s \<noteq> []" and "\<not> py_isspace (hd (rev s))"
    using assms(1,3) by (simp_all add: hd_rev)
  then have b: "dropWhile py_isspace (rev s) = rev s"
    by (rule dropWhile_unchanged)
  show ?thesis by (simp add: strip_def a b)
qed

lemma ones_isdigit: "0 < n \<Longrightarrow> isdigit (replicate n CHR ''1'')"
  by (simp add: isdigit_def list_all_iff unicode_digit_def ascii_digit_def)

lemma long_numeral_raises:
  assumes "n > int_max_str_digits"
  shows "parse_selection (replicate n CHR ''1'') avail =
           Inl (Exn ''ValueError''
                 (''Exceeds the limit ('' @ str_nat int_max_str_digits
                  @ '' digits) for integer string conversion: value has '' @ str_nat n
                  @ '' digits; use sys.set_int_max_str_digits() to increase the limit''))"
proof -
  let ?tok = "replicate n CHR ''1''"
  have pos: "0 < n" using assms by simp
  then have ne: "?tok \<noteq> []" by simp
  have "hd ?tok = CHR ''1''" and "last ?tok = CHR ''1''"
    using pos by (simp_all add: hd_replicate last_replicate)
  then have strip: "strip ?tok = ?tok"
    using ne by (intro strip_unchanged) (simp_all add: py_isspace_def)
  have split: "split_on CHR '','' ?tok = [?tok]"
    by (rule split_on_no_sep) simp
  have "takeWhile ascii_digit ?tok = ?tok"
    by (simp add: takeWhile_eq_all_conv ascii_digit_def)
  then have "py_int ?tok =
           Inl (Exn ''ValueError''
                 (''Exceeds the limit ('' @ str_nat int_max_str_digits
                  @ '' digits) for integer string conversion: value has '' @ str_nat n
                  @ '' digits; use sys.set_int_max_str_digits() to increase the limit''))"
    using assms by (simp add: py_int_def Let_def)
  then show ?thesis
    using split strip ones_isdigit [OF pos] by (simp add: parse_selection_def Let_def)
qed

lemma str_nat_limits: "str_nat 4301 = ''4301''" "str_nat int_max_str_digits = ''4300''"
  by (simp_all add: str_nat.simps int_max_str_digits_def)

text \<open>
  C10. Tokens of a few decimal digits behave as the claim says: \<open>0\<close> and \<open>11\<close> are
  dropped and \<open>2\<close> selects the second agent. The token made of 4301 digits \<open>1\<close> passes
  \<open>isdigit\<close> and denotes a number beyond the length of the list; it is not dropped,
  \<open>int\<close> raises ValueError and \<open>parse_selection\<close> lets it through.
\<close>

theorem long_numeral_not_dropped:
  "parse_selection ''0,11,2'' available_agents = Inr [''frontend_developer'']
   \<and> isdigit (replicate 4301 CHR ''1'')
   \<and> parse_selection (replicate 4301 CHR ''1'') available_agents =
       Inl (Exn ''ValueError''
             (''Exceeds the limit ('' @ ''4300''
              @ '' digits) for integer string conversion: value has '' @ ''4301''
              @ '' digits; use sys.set_int_max_str_digits() to increase the limit''))"
proof -
  have a: "parse_selection ''0,11,2'' available_agents = Inr [''frontend_developer'']"
    by code_simp
  have b: "isdigit (replicate 4301 CHR ''1'')"
    by (rule ones_isdigit) simp
  have c: "4301 > int_max_str_digits"
    unfolding int_max_str_digits_def by simp
  have d: "parse_selection (replicate 4301 CHR ''1'') available_agents =
       Inl (Exn ''ValueError''
             (''Exceeds the limit ('' @ ''4300''
              @ '' digits) for integer string conversion: value has '' @ ''4301''
              @ '' digits; use sys.set_int_max_str_digits() to increase the limit''))"
    using long_numeral_raises [OF c, of available_agents] unfolding str_nat_limits .
  show ?thesis
    using a b d by (intro conjI)
qed

text \<open>
  C2. The example of the specification holds: \<open>1,bad,tech_lead\<close> yields the first agent
  and \<open>tech_lead\<close>. A token that passes \<open>isdigit\<close> without being a decimal numeral, such
  as the superscript two, is not dropped: \<open>int\<close> raises ValueError and \<open>parse_selection\<close>
  lets it through.
\<close>

theorem selection_superscript_raises:
  "parse_selection ''1,bad,tech_lead'' available_agents = Inr [''senior_developer'', ''tech_lead'']
   \<and> parse_selection (''1,'' @ [CHR 0xB2]) available_agents =
       Inl (Exn ''ValueError''
             (''invalid literal for int() with base 10: '' @ [CHR 0x27, CHR 0xB2, CHR 0x27]))"
  by code_simp

section \<open>The order of the selected steps\<close>

lemma task_map_config: "map_of task_map n = Some t \<Longrightarrow> task_config t = n"
  by (auto simp: task_map_def split: if_splits)

lemma task_map_dom: "n \<in> set available_tasks \<Longrightarrow> map_of task_map n \<noteq> None"
  by (auto simp: task_map_def available_tasks_def)

lemma custom_tasks_names:
  "set names \<subseteq> set available_tasks \<Longrightarrow>
     map task_config (crew_tasks (create_custom_crew ags names)) = names"
proof (induction names)
  case Nil
  show ?case by (simp add: create_custom_crew_def List.map_filter_simps)
next
  case (Cons n names)
  then obtain t where t: "map_of task_map n = Some t"
    using task_map_dom [of n] by auto
  show ?case
    using Cons t task_map_config [OF t]
    by (simp add: create_custom_crew_def List.map_filter_simps)
qed

text \<open>
  C3, as the claim has it: the selection \<open>3,1\<close> would run step 1 before step 3. The
  crew built from it has the third step first: its canonical positions are not ascending.
\<close>

theorem custom_order_counterexample:
  "parse_selection ''3,1'' available_tasks = Inr [''develop_backend'', ''analyze_project'']
   \<and> \<not> sorted (canonical_positions
                  (create_custom_crew [''tech_lead''] [''develop_backend'', ''analyze_project'']))"
  by code_simp

text \<open>
  C3, amended: the steps of a custom crew are the selected tasks in the order in which
  the user entered them. The tasks for the selection \<open>a,b\<close> are those for \<open>a\<close> followed by
  those for \<open>b\<close>, and \<open>create_custom_crew\<close> keeps that order.
\<close>

theorem custom_tasks_in_entry_order:
  assumes "parse_selection a available_tasks = Inr xs"
    and "parse_selection b available_tasks = Inr ys"
  shows "parse_selection (a @ '','' @ b) available_tasks = Inr (xs @ ys)
         \<and> map task_config (crew_tasks (create_custom_crew ags (xs @ ys))) = xs @ ys"
proof -
  have "set (xs @ ys) \<subseteq> set available_tasks"
    using assms parse_selection_subset by fastforce
  then show ?thesis
    using parse_selection_append [OF assms] custom_tasks_names by blast
qed

theorem custom_tasks_in_entry_order_witness:
  "parse_selection ''3'' available_tasks = Inr [''develop_backend'']
   \<and> parse_selection ''1'' available_tasks = Inr [''analyze_project'']
   \<and> parse_selection ''3,1'' available_tasks = Inr [''develop_backend'', ''analyze_project'']
   \<and> map task_config (crew_tasks (create_custom_crew [''tech_lead'']
                                     [''develop_backend'', ''analyze_project'']))
       = [''develop_backend'', ''analyze_project'']"
proof -
  have a: "parse_selection ''3'' available_tasks = Inr [''develop_backend'']" by code_simp
  have b: "parse_selection ''1'' available_tasks = Inr [''analyze_project'']" by code_simp
  show ?thesis
    using a b custom_tasks_in_entry_order [OF a b, of "[''tech_lead'']"] by simp
qed

section \<open>Exit statuses\<close>

text \<open>
  The entry point \<open>main\<close> ends with status 1 when the description is blank or when
  constructing or running the crew raises, and with status 0 otherwise.
\<close>

lemma main_exit_code:
  "exit_code (main fw argv typed) =
     (let d = (if length argv > 1 then join '' '' (tl argv) else typed) in
      if strip d = [] \<or> isl (new_crew fw) \<or> isl (kickoff fw full_crew d) then 1 else 0)"
  by (auto simp: main_def Let_def split: sum.splits)

text \<open>
  So does the custom workflow, as long as both selections are parsed without an
  exception: status 1 when the description is blank, when a parsed selection is empty, or
  when the crew raises.
\<close>

lemma run_custom_workflow_exit_code:
  assumes "parse_selection (strip typed_agents) available_agents = Inr selected_agents"
    and "parse_selection (strip typed_tasks) available_tasks = Inr selected_tasks"
  shows "exit_code (run_custom_workflow fw typed_agents typed_tasks typed_description) =
     (if strip typed_description = [] \<or> selected_agents = [] \<or> selected_tasks = []
         \<or> isl (new_crew fw)
         \<or> isl (kickoff fw (create_custom_crew selected_agents selected_tasks)
                   (strip typed_description))
      then 1 else 0)"
proof -
  have empty: "parse_selection [] av = Inr r \<Longrightarrow> [] \<notin> set av \<Longrightarrow> r = []" for av r
    by (simp add: parse_selection_def strip_def isdigit_def)
  have "selected_agents = []" if "strip typed_agents = []"
    using that assms(1) empty [of available_agents selected_agents]
    by (simp add: available_agents_def)
  moreover have "selected_tasks = []" if "strip typed_tasks = []"
    using that assms(2) empty [of available_tasks selected_tasks]
    by (simp add: available_tasks_def)
  ultimately show ?thesis
    using assms by (auto simp: run_custom_workflow_def Let_def split: sum.splits)
qed

text \<open>
  C8. A run the claim gives status 0: the description is not blank, the agent selection
  \<open>1,\<close> followed by a superscript two has the valid entry 1, the task selection is valid
  and the crew runs without raising. The conversion of the superscript raises before
  the selections are validated and nothing catches it, so the status is 1. With \<open>bad\<close>
  in place of the superscript the same run ends with status 0.
\<close>

theorem custom_workflow_superscript_exit:
  "strip ''Build a todo API'' \<noteq> []
   \<and> script sample_framework [''main.py'', ''--custom'']
        (\<lambda>n. [''1,'' @ [CHR 0xB2], ''1'', ''Build a todo API''] ! n)
       = Uncaught (Exn ''ValueError''
                    (''invalid literal for int() with base 10: '' @ [CHR 0x27, CHR 0xB2, CHR 0x27]))
   \<and> exit_code (script sample_framework [''main.py'', ''--custom'']
        (\<lambda>n. [''1,'' @ [CHR 0xB2], ''1'', ''Build a todo API''] ! n)) = 1
   \<and> exit_code (script sample_framework [''main.py'', ''--custom'']
        (\<lambda>n. [''1,bad'', ''1'', ''Build a todo API''] ! n)) = 0"
  by code_simp

section \<open>Missing arguments\<close>

text \<open>
  C4, as the claim has it: \<open>checkout\<close> without a branch would report the missing branch.
  On a repository path that does not exist it reports the path.
\<close>

theorem checkout_missing_path_counterexample:
  "GitTool_run (sample_git_env False) ''checkout'' ''repo'' None None None ((), [])
     = (Inr ''Path does not exist: repo'', ((), []))
   \<and> ''Path does not exist: repo'' \<noteq> ''Branch name is required for checkout''"
  by code_simp

text \<open>
  What the research tool answers to \<open>scrape\<close> without a URL: the operation falls through
  to the last branch.
\<close>

lemma scrape_without_url:
  "WebResearchTool_run env ''scrape'' query None w = (Inr ''Unknown operation: scrape'', w)"
  by (simp add: WebResearchTool_run_def WebResearchTool_body_def try_except_def io_return_def)

text \<open>
  C4, amended: \<open>write_file\<close> without content and \<open>copy_file\<close>, \<open>move_file\<close> without
  destination return the message naming the missing argument, without any call to the
  file system; \<open>commit\<close> without message and \<open>checkout\<close> without branch return theirs
  when the repository path exists.
\<close>

theorem missing_argument_messages:
  assumes "path_cwd env w = (Inr original_dir, w1)"
    and "path_resolve env path w1 = (Inr repo_path, w2)"
    and "path_exists env repo_path w2 = (Inr True, w3)"
  shows "FileSystemTool_run fs ''write_file'' p None destination world
           = (Inr ''Content is required for write operation'', world)
   \<and> FileSystemTool_run fs ''copy_file'' p content None world
           = (Inr ''Destination is required for copy operation'', world)
   \<and> FileSystemTool_run fs ''move_file'' p content None world
           = (Inr ''Destination is required for move operation'', world)
   \<and> GitTool_run env ''commit'' path None branch remote_url (w, calls)
           = (Inr ''Commit message is required'', (w3, calls))
   \<and> GitTool_run env ''checkout'' path message None remote_url (w, calls)
           = (Inr ''Branch name is required for checkout'', (w3, calls))"
proof -
  have fs: "FileSystemTool_run fs ''write_file'' p None destination world
           = (Inr ''Content is required for write operation'', world)"
    "FileSystemTool_run fs ''copy_file'' p content None world
           = (Inr ''Destination is required for copy operation'', world)"
    "FileSystemTool_run fs ''move_file'' p content None world
           = (Inr ''Destination is required for move operation'', world)"
    by (simp_all add: FileSystemTool_run_def FileSystemTool_body_def try_except_def io_return_def)
  have git: "GitTool_run env ''commit'' path None branch remote_url (w, calls)
           = (Inr ''Commit message is required'', (w3, calls))"
    "GitTool_run env ''checkout'' path message None remote_url (w, calls)
           = (Inr ''Branch name is required for checkout'', (w3, calls))"
    using assms
    by (simp_all add: GitTool_run_def GitTool_body_def GitTool_dispatch_def try_except_def
          io_bind_def io_return_def quiet_def)
  show ?thesis using fs git by simp
qed

theorem missing_argument_messages_witness:
  "path_cwd (sample_git_env True) () = (Inr ''/work'', ())
   \<and> path_resolve (sample_git_env True) ''repo'' () = (Inr ''/work/repo'', ())
   \<and> path_exists (sample_git_env True) ''/work/repo'' () = (Inr True, ())
   \<and> FileSystemTool_run (store_fs [CHR 0x0A]) ''write_file'' ''a.txt'' None None []
       = (Inr ''Content is required for write operation'', [])
   \<and> GitTool_run (sample_git_env True) ''checkout'' ''repo'' None None None ((), [])
       = (Inr ''Branch name is required for checkout'', ((), []))"
proof -
  have b: "path_cwd (sample_git_env True) () = (Inr ''/work'', ())"
    by (simp add: sample_git_env_def io_return_def)
  have c: "path_resolve (sample_git_env True) ''repo'' () = (Inr ''/work/repo'', ())"
    by (simp add: sample_git_env_def io_return_def)
  have d: "path_exists (sample_git_env True) ''/work/repo'' () = (Inr True, ())"
    by (simp add: sample_git_env_def io_return_def)
  show ?thesis
    using b c d
      missing_argument_messages [where fs = "store_fs [CHR 0x0A]" and p = "''a.txt''"
        and destination = None and world = "[]" and content = None and branch = None
        and remote_url = None and message = None and calls = "[]", OF b c d]
    by simp
qed

section \<open>Writing a file and reading it back\<close>

lemma universal_newlines_Cons:
  "CHR 0x0D \<noteq> c \<Longrightarrow> universal_newlines (c # xs) = c # universal_newlines xs"
  by (cases xs) auto

lemma universal_newlines_plain: "CHR 0x0D \<notin> set s \<Longrightarrow> universal_newlines s = s"
  by (induction s) (simp_all add: universal_newlines_Cons)

lemma write_newlines_posix: "write_newlines [CHR 0x0A] s = s"
  by (induction s) simp_all

lemma read_back_windows:
  "CHR 0x0D \<notin> set s \<Longrightarrow> universal_newlines (write_newlines [CHR 0x0D, CHR 0x0A] s) = s"
  by (induction s) (simp_all add: universal_newlines_Cons)

lemma read_back:
  assumes "CHR 0x0D \<notin> set s" and "linesep = [CHR 0x0A] \<or> linesep = [CHR 0x0D, CHR 0x0A]"
  shows "universal_newlines (write_newlines linesep s) = s"
  using assms by (auto simp: write_newlines_posix universal_newlines_plain read_back_windows)

lemma write_file_stores:
  assumes "FileSystemTool_run (store_fs linesep) ''write_file'' path (Some data) destination st
             = (Inr (''Content written to: '' @ path), st')"
  shows "map_of st' path = Some (File (write_newlines linesep data))"
  using assms
  by (auto simp: FileSystemTool_run_def FileSystemTool_body_def try_except_def io_bind_def
        io_return_def store_fs_def raise_def split: option.splits node.splits if_splits)

lemma read_file_returns:
  assumes "map_of st path = Some (File text)"
  shows "FileSystemTool_run (store_fs linesep) ''read_file'' path content destination st
           = (Inr (universal_newlines text), st)"
  using assms
  by (simp add: FileSystemTool_run_def FileSystemTool_body_def try_except_def io_bind_def
        io_return_def store_fs_def)

text \<open>
  C6, as the claim has it: the text read back would be the text written. A carriage
  return is read back as a line feed.
\<close>

theorem carriage_return_counterexample:
  "FileSystemTool_run (store_fs [CHR 0x0A]) ''write_file'' ''notes/a.txt''
       (Some [CHR ''a'', CHR 0x0D, CHR ''b'']) None []
     = (Inr ''Content written to: notes/a.txt'',
        [(''notes/a.txt'', File [CHR ''a'', CHR 0x0D, CHR ''b'']), (''notes'', Dir)])
   \<and> FileSystemTool_run (store_fs [CHR 0x0A]) ''read_file'' ''notes/a.txt'' None None
        [(''notes/a.txt'', File [CHR ''a'', CHR 0x0D, CHR ''b'']), (''notes'', Dir)]
     = (Inr [CHR ''a'', CHR 0x0A, CHR ''b''],
        [(''notes/a.txt'', File [CHR ''a'', CHR 0x0D, CHR ''b'']), (''notes'', Dir)])
   \<and> [CHR ''a'', CHR 0x0A, CHR ''b''] \<noteq> [CHR ''a'', CHR 0x0D, CHR ''b'']"
  by code_simp

text \<open>
  C6, amended: when \<open>write_file\<close> reports success and the content has no carriage
  return, \<open>read_file\<close> on the same path returns exactly the content, on either platform.
\<close>

theorem write_read_round_trip:
  assumes "FileSystemTool_run (store_fs linesep) ''write_file'' path (Some data) destination st
             = (Inr (''Content written to: '' @ path), st')"
    and "CHR 0x0D \<notin> set data"
    and "linesep = [CHR 0x0A] \<or> linesep = [CHR 0x0D, CHR 0x0A]"
  shows "FileSystemTool_run (store_fs linesep) ''read_file'' path content' destination' st'
           = (Inr data, st')"
  using read_file_returns [OF write_file_stores [OF assms(1)]] read_back [OF assms(2,3)]
  by simp

theorem write_read_round_trip_witness:
  "FileSystemTool_run (store_fs [CHR 0x0D, CHR 0x0A]) ''write_file'' ''notes/a.txt''
       (Some [CHR ''a'', CHR 0x0A, CHR ''b'']) None []
     = (Inr (''Content written to: '' @ ''notes/a.txt''),
        [(''notes/a.txt'', File [CHR ''a'', CHR 0x0D, CHR 0x0A, CHR ''b'']), (''notes'', Dir)])
   \<and> CHR 0x0D \<notin> set [CHR ''a'', CHR 0x0A, CHR ''b'']
   \<and> FileSystemTool_run (store_fs [CHR 0x0D, CHR 0x0A]) ''read_file'' ''notes/a.txt'' None None
        [(''notes/a.txt'', File [CHR ''a'', CHR 0x0D, CHR 0x0A, CHR ''b'']), (''notes'', Dir)]
     = (Inr [CHR ''a'', CHR 0x0A, CHR ''b''],
        [(''notes/a.txt'', File [CHR ''a'', CHR 0x0D, CHR 0x0A, CHR ''b'']), (''notes'', Dir)])"
proof -
  have a: "FileSystemTool_run (store_fs [CHR 0x0D, CHR 0x0A]) ''write_file'' ''notes/a.txt''
       (Some [CHR ''a'', CHR 0x0A, CHR ''b'']) None []
     = (Inr (''Content written to: '' @ ''notes/a.txt''),
        [(''notes/a.txt'', File [CHR ''a'', CHR 0x0D, CHR 0x0A, CHR ''b'']), (''notes'', Dir)])"
    by code_simp
  have b: "CHR 0x0D \<notin> set [CHR ''a'', CHR 0x0A, CHR ''b'']" by simp
  have c: "[CHR 0x0D, CHR 0x0A] = [CHR 0x0A] \<or> [CHR 0x0D, CHR 0x0A] = [CHR 0x0D, CHR 0x0A]"
    by simp
  show ?thesis
    using a b write_read_round_trip [OF a b c, of None None] by simp
qed

end
